theory Spec2Isabelle
  imports Complex_Main "HOL-Library.AList"
begin

section \<open>The backtesting engine of webapp/backtesting\_engine.py\<close>

text \<open>
  The engine simulates a portfolio day by day. Python's \<open>float\<close> values (cash, prices, rates)
  are modelled as \<open>real\<close>, Python's \<open>int\<close> quantities as \<open>int\<close>, a \<open>datetime\<close> as the
  number of its day, and a \<open>str\<close> as \<open>string\<close>. The dictionary of positions is a map;
  the dictionary of current prices is iterated by the source, so it is an association list in
  insertion order.
\<close>

subsection \<open>Data model\<close>

type_synonym date = int

datatype BacktestStatus = PENDING | RUNNING | COMPLETED | FAILED | CANCELLED

text \<open>
  \<open>BacktestConfig\<close>. The two free-form dictionaries are passed through and never read by the
  engine.
\<close>

record BacktestConfig =
  name :: string
  description :: string
  symbols :: "string list"
  start_date :: string
  end_date :: string
  initial_capital :: real
  trading_config :: "(string \<times> string) list"
  risk_config :: "(string \<times> string) list"
  benchmark :: string
  commission :: real
  slippage :: real

record Trade =
  symbol :: string
  entry_date :: date
  exit_date :: "date option"
  entry_price :: real
  exit_price :: "real option"
  quantity :: int
  side :: string
  pnl :: "real option"
  commission :: real
  reason :: string

text \<open>
  A Python \<open>float\<close> that may be \<open>float('inf')\<close>: only \<open>profit_factor\<close> is assigned it.
\<close>

datatype pyfloat = Num real | PosInf

text \<open>
  \<open>BacktestMetrics\<close>, the fields computed from the trade list. The fields computed from the
  equity curve and the benchmark with pandas and numpy floating-point statistics
  (\<open>total_return\<close>, \<open>annual_return\<close>, \<open>volatility\<close>, \<open>sharpe_ratio\<close>, \<open>max_drawdown\<close>,
  \<open>benchmark_return\<close>, \<open>alpha\<close>, \<open>beta\<close>) are not part of the model; what is kept of them is
  where they raise.
\<close>

record BacktestMetrics =
  win_rate :: real
  profit_factor :: pyfloat
  total_trades :: nat
  winning_trades :: nat
  losing_trades :: nat
  avg_win :: real
  avg_loss :: real
  largest_win :: real
  largest_loss :: real

text \<open>One entry of \<open>equity_curve\<close>: the dictionary with keys date, equity, cash, positions\_value.\<close>

record EquityPoint =
  ep_date :: date
  ep_equity :: real
  ep_cash :: real
  ep_positions_value :: real

text \<open>\<open>BacktestResult\<close>; timestamps are seconds.\<close>

record BacktestResult =
  backtest_id :: string
  config :: BacktestConfig
  status :: BacktestStatus
  metrics :: "BacktestMetrics option"
  trades :: "Trade list"
  equity_curve :: "EquityPoint list"
  created_at :: nat
  started_at :: "nat option"
  completed_at :: "nat option"
  error_message :: "string option"

text \<open>
  A symbol's \<open>DataFrame\<close>: its index and its Close column, in index order. The dictionary
  \<open>data\<close> of the loaded symbols is iterated, so it is an association list.
\<close>

type_synonym series = "(date \<times> real) list"
type_synonym market_data = "(string \<times> series) list"

text \<open>A signal: the dictionary with keys symbol, side, quantity, price, reason.\<close>

record Signal =
  sig_symbol :: string
  sig_side :: string
  sig_quantity :: int
  sig_price :: real
  sig_reason :: string

datatype error = NoEquityCurve | IndexError | ZeroDivisionError | KeyError

record BacktestPortfolio =
  initial_capital :: real
  cash :: real
  commission :: real
  slippage :: real
  positions :: "string \<rightharpoonup> int"
  current_prices :: "(string \<times> real) list"
  total_value :: real
  positions_value :: real

subsection \<open>BacktestPortfolio\<close>

text \<open>\<open>BacktestPortfolio.__init__\<close>.\<close>

definition BacktestPortfolio_init :: "real \<Rightarrow> real \<Rightarrow> real \<Rightarrow> BacktestPortfolio" where
  "BacktestPortfolio_init capital commission_rate slippage_rate =
     \<lparr>initial_capital = capital, cash = capital, commission = commission_rate,
      slippage = slippage_rate, positions = Map.empty, current_prices = [],
      total_value = capital, positions_value = 0\<rparr>"

text \<open>\<open>self.positions.get(symbol, 0)\<close>.\<close>

definition positions_get :: "(string \<rightharpoonup> int) \<Rightarrow> string \<Rightarrow> int" where
  "positions_get m s = (case m s of None \<Rightarrow> 0 | Some q \<Rightarrow> q)"

text \<open>\<open>dict.update\<close>: a key already present keeps its place, a new key goes to the end.\<close>

definition dict_update :: "('k \<times> 'v) list \<Rightarrow> ('k \<times> 'v) list \<Rightarrow> ('k \<times> 'v) list" where
  "dict_update d new = fold (\<lambda>(k, v) acc. AList.update k v acc) new d"

definition update_prices ::
  "BacktestPortfolio \<Rightarrow> date \<Rightarrow> (string \<times> real) list \<Rightarrow> BacktestPortfolio" where
  "update_prices p d prices =
     (let cp = dict_update (current_prices p) prices;
          pv = sum_list (map (\<lambda>(s, price). real_of_int (positions_get (positions p) s) * price) cp)
      in p\<lparr>current_prices := cp, positions_value := pv, total_value := cash p + pv\<rparr>)"

text \<open>
  \<open>execute_trade\<close> returns the trade, or \<open>None\<close>, together with the portfolio it leaves.
  The only statement of the body that can raise on inputs of the declared types is the product
  of a quantity too large for a float; it comes before every assignment, and the \<open>except\<close>
  branch returns \<open>None\<close> as the rejecting branches do. The arithmetic is that of the reals:
  it is the float arithmetic of the source, up to rounding, as long as no computed value leaves
  the float range.
\<close>

definition execute_trade ::
  "BacktestPortfolio \<Rightarrow> string \<Rightarrow> string \<Rightarrow> int \<Rightarrow> real \<Rightarrow> date \<Rightarrow> string
     \<Rightarrow> Trade option \<times> BacktestPortfolio" where
  "execute_trade p smb sd qty price d rsn =
     (let execution_price =
            (if sd = ''BUY'' then price * (1 + slippage p) else price * (1 - slippage p));
          trade_value = real_of_int qty * execution_price;
          commission_cost = trade_value * BacktestPortfolio.commission p
      in if sd = ''BUY'' then
           (let total_cost = trade_value + commission_cost
            in if cash p \<ge> total_cost then
                 (Some \<lparr>symbol = smb, entry_date = d, exit_date = None,
                        entry_price = execution_price, exit_price = None,
                        quantity = qty, side = sd, pnl = None,
                        commission = commission_cost, reason = rsn\<rparr>,
                  p\<lparr>cash := cash p - total_cost,
                    positions := (positions p)(smb \<mapsto> positions_get (positions p) smb + qty)\<rparr>)
               else (None, p))
         else if sd = ''SELL'' then
           (let current_position = positions_get (positions p) smb
            in if current_position \<ge> qty then
                 (Some \<lparr>symbol = smb, entry_date = d, exit_date = Some d,
                        entry_price = execution_price, exit_price = Some execution_price,
                        quantity = qty, side = sd, pnl = None,
                        commission = commission_cost, reason = rsn\<rparr>,
                  p\<lparr>cash := cash p + (trade_value - commission_cost),
                    positions :=
                      (if current_position - qty = 0 then (positions p)(smb := None)
                       else (positions p)(smb \<mapsto> current_position - qty))\<rparr>)
               else (None, p))
         else (None, p))"

text \<open>A sequence of calls on one portfolio.\<close>

datatype portfolio_op =
    UpdatePrices date "(string \<times> real) list"
  | ExecuteTrade string string int real date string

fun apply_op :: "portfolio_op \<Rightarrow> BacktestPortfolio \<Rightarrow> BacktestPortfolio" where
  "apply_op (UpdatePrices d prices) p = update_prices p d prices"
| "apply_op (ExecuteTrade smb sd qty price d rsn) p = snd (execute_trade p smb sd qty price d rsn)"

definition apply_ops :: "portfolio_op list \<Rightarrow> BacktestPortfolio \<Rightarrow> BacktestPortfolio" where
  "apply_ops ops p = fold apply_op ops p"






subsection \<open>The data provider\<close>

text \<open>
  \<open>DataProvider.get_historical_data\<close> downloads a series or reads it from its cache; the
  download is outside the program, so the provider is a parameter: a function from symbol, start
  date and end date to the series, \<open>None\<close> when nothing could be loaded. A series that was not
  empty before \<open>dropna\<close> may be empty after it, so \<open>Some []\<close> is a possible answer.
\<close>

type_synonym provider = "string \<Rightarrow> string \<Rightarrow> string \<Rightarrow> series option"

definition get_multiple_symbols ::
  "provider \<Rightarrow> string list \<Rightarrow> string \<Rightarrow> string \<Rightarrow> market_data" where
  "get_multiple_symbols prov syms start_d end_d =
     fold (\<lambda>s data. case prov s start_d end_d of
                        None \<Rightarrow> data
                      | Some symbol_data \<Rightarrow> AList.update s symbol_data data) syms []"

subsection \<open>The simulated signals\<close>

text \<open>\<open>Index.get_loc\<close> on an index without duplicates: the position of the date.\<close>

fun get_loc :: "date \<Rightarrow> date list \<Rightarrow> nat option" where
  "get_loc d [] = None"
| "get_loc d (x # xs) = (if x = d then Some 0 else map_option Suc (get_loc d xs))"

definition simulate_trading_signals :: "market_data \<Rightarrow> date \<Rightarrow> nat \<Rightarrow> Signal list" where
  "simulate_trading_signals data current_date day_index =
     (if day_index < 20 then []
      else concat (map (\<lambda>(s, symbol_data).
             case get_loc current_date (map fst symbol_data) of
               None \<Rightarrow> []
             | Some end_idx \<Rightarrow>
                 if end_idx < 20 then []
                 else
                   (let recent = take 20 (drop (end_idx - 19) (map snd symbol_data));
                        current_price = last recent;
                        avg_price = sum_list recent / real (length recent)
                    in if current_price > avg_price * 1.02 then
                         [\<lparr>sig_symbol = s, sig_side = ''BUY'', sig_quantity = 100,
                           sig_price = current_price, sig_reason = ''Momentum positif''\<rparr>]
                       else if current_price < avg_price * 0.98 then
                         [\<lparr>sig_symbol = s, sig_side = ''SELL'', sig_quantity = 100,
                           sig_price = current_price,
                           sig_reason = ''Momentum n'' @ [CHR 0xC3, CHR 0xA9] @ ''gatif''\<rparr>]
                       else [])) data))"

subsection \<open>The daily loop of \<open>_run_backtest\<close>\<close>

text \<open>The prices of the day: the Close of every symbol whose index has the date.\<close>

definition day_prices :: "market_data \<Rightarrow> date \<Rightarrow> (string \<times> real) list" where
  "day_prices data current_date =
     concat (map (\<lambda>(s, symbol_data).
               case map_of symbol_data current_date of None \<Rightarrow> [] | Some c \<Rightarrow> [(s, c)]) data)"

text \<open>The loop over the signals: a trade that is returned is appended to the run's trades.\<close>

fun execute_signals ::
  "Signal list \<Rightarrow> date \<Rightarrow> BacktestPortfolio \<times> Trade list \<Rightarrow> BacktestPortfolio \<times> Trade list" where
  "execute_signals [] d (p, ts) = (p, ts)"
| "execute_signals (sg # sgs) d (p, ts) =
     (case execute_trade p (sig_symbol sg) (sig_side sg) (sig_quantity sg) (sig_price sg) d
             (sig_reason sg) of
        (None, p') \<Rightarrow> execute_signals sgs d (p', ts)
      | (Some t, p') \<Rightarrow> execute_signals sgs d (p', ts @ [t]))"

definition equity_point :: "date \<Rightarrow> BacktestPortfolio \<Rightarrow> EquityPoint" where
  "equity_point current_date p =
     \<lparr>ep_date = current_date, ep_equity = total_value p, ep_cash = cash p,
      ep_positions_value = positions_value p\<rparr>"

text \<open>
  One day with the signals given: update the prices, execute the signals, record the equity.
\<close>

definition day_with_signals ::
  "(string \<times> real) list \<Rightarrow> Signal list \<Rightarrow> date
     \<Rightarrow> BacktestPortfolio \<times> Trade list \<times> EquityPoint list
     \<Rightarrow> BacktestPortfolio \<times> Trade list \<times> EquityPoint list" where
  "day_with_signals prices signals current_date st =
     (case st of (p, ts, curve) \<Rightarrow>
        (case execute_signals signals current_date (update_prices p current_date prices, ts) of
           (p', ts') \<Rightarrow> (p', ts', curve @ [equity_point current_date p'])))"

definition simulate_day ::
  "market_data \<Rightarrow> nat \<Rightarrow> date
     \<Rightarrow> BacktestPortfolio \<times> Trade list \<times> EquityPoint list
     \<Rightarrow> BacktestPortfolio \<times> Trade list \<times> EquityPoint list" where
  "simulate_day data i current_date st =
     day_with_signals (day_prices data current_date)
       (simulate_trading_signals data current_date i) current_date st"

fun simulate_days ::
  "market_data \<Rightarrow> nat \<Rightarrow> date list
     \<Rightarrow> BacktestPortfolio \<times> Trade list \<times> EquityPoint list
     \<Rightarrow> BacktestPortfolio \<times> Trade list \<times> EquityPoint list" where
  "simulate_days data i [] st = st"
| "simulate_days data i (d # ds) st = simulate_days data (Suc i) ds (simulate_day data i d st)"

text \<open>\<open>sorted(list(all_dates))\<close>, the union of the indexes.\<close>

definition trading_dates :: "market_data \<Rightarrow> date list" where
  "trading_dates data = sort (remdups (concat (map (\<lambda>(s, symbol_data). map fst symbol_data) data)))"

subsection \<open>The metrics\<close>

text \<open>Python's \<open>/\<close> on numbers raises on a zero divisor.\<close>

definition py_div :: "real \<Rightarrow> real \<Rightarrow> error + real" where
  "py_div a b = (if b = 0 then Inl ZeroDivisionError else Inr (a / b))"

text \<open>\<open>t.pnl and t.pnl > 0\<close>, \<open>t.pnl and t.pnl < 0\<close>: \<open>None\<close> and \<open>0.0\<close> are false.\<close>

definition is_winning :: "Trade \<Rightarrow> bool" where
  "is_winning t = (case pnl t of None \<Rightarrow> False | Some v \<Rightarrow> v \<noteq> 0 \<and> v > 0)"

definition is_losing :: "Trade \<Rightarrow> bool" where
  "is_losing t = (case pnl t of None \<Rightarrow> False | Some v \<Rightarrow> v \<noteq> 0 \<and> v < 0)"

text \<open>\<open>t.pnl\<close> of a trade that passed one of the two filters.\<close>

definition pnl_of :: "Trade \<Rightarrow> real" where
  "pnl_of t = (case pnl t of None \<Rightarrow> 0 | Some v \<Rightarrow> v)"

definition zero_metrics :: BacktestMetrics where
  "zero_metrics =
     \<lparr>win_rate = 0, profit_factor = Num 0, total_trades = 0, winning_trades = 0,
      losing_trades = 0, avg_win = 0, avg_loss = 0, largest_win = 0, largest_loss = 0\<rparr>"

text \<open>
  The \<open>try\<close> block of \<open>_calculate_metrics\<close>. It raises on an empty equity curve, and on
  \<open>iloc[0]\<close> of a benchmark series that is loaded but empty; the statistics of the equity curve
  divide numpy numbers, which yields inf or nan and does not raise.
\<close>

definition metrics_body ::
  "EquityPoint list \<Rightarrow> Trade list \<Rightarrow> string \<Rightarrow> market_data \<Rightarrow> error + BacktestMetrics" where
  "metrics_body curve ts bench data =
     (if curve = [] then Inl NoEquityCurve
      else
        (let completed_trades = filter (\<lambda>t. exit_date t \<noteq> None) ts;
             winning = filter is_winning completed_trades;
             losing = filter is_losing completed_trades;
             total_wins = (if winning \<noteq> [] then sum_list (map pnl_of winning) else 0);
             total_losses = (if losing \<noteq> [] then \<bar>sum_list (map pnl_of losing)\<bar> else 0)
         in case (if completed_trades \<noteq> []
                  then py_div (real (length winning)) (real (length completed_trades))
                  else Inr 0) of
              Inl e \<Rightarrow> Inl e
            | Inr wr \<Rightarrow>
               (case (if total_losses > 0
                      then map_sum id Num (py_div total_wins total_losses)
                      else Inr PosInf) of
                  Inl e \<Rightarrow> Inl e
                | Inr pf \<Rightarrow>
                   (case map_of data bench of
                      Some [] \<Rightarrow> Inl IndexError
                    | _ \<Rightarrow>
                       Inr \<lparr>win_rate = wr, profit_factor = pf,
                            total_trades = length completed_trades,
                            winning_trades = length winning,
                            losing_trades = length losing,
                            avg_win = (if winning \<noteq> []
                                       then sum_list (map pnl_of winning) / real (length winning)
                                       else 0),
                            avg_loss = (if losing \<noteq> []
                                        then sum_list (map pnl_of losing) / real (length losing)
                                        else 0),
                            largest_win = (if winning \<noteq> []
                                           then fold max (map pnl_of winning) (pnl_of (hd winning))
                                           else 0),
                            largest_loss = (if losing \<noteq> []
                                            then fold min (map pnl_of losing) (pnl_of (hd losing))
                                            else 0)\<rparr>))))"

text \<open>\<open>_calculate_metrics\<close>: any exception gives the record of zeros.\<close>

definition calculate_metrics ::
  "EquityPoint list \<Rightarrow> Trade list \<Rightarrow> string \<Rightarrow> market_data \<Rightarrow> BacktestMetrics" where
  "calculate_metrics curve ts bench data =
     (case metrics_body curve ts bench data of Inl e \<Rightarrow> zero_metrics | Inr m \<Rightarrow> m)"

subsection \<open>BacktestEngine\<close>

record BacktestEngine =
  active_backtests :: "string \<rightharpoonup> BacktestResult"
  completed_backtests :: "string \<rightharpoonup> BacktestResult"
  executor_threads :: "string set"

definition BacktestEngine_init :: BacktestEngine where
  "BacktestEngine_init =
     \<lparr>active_backtests = Map.empty, completed_backtests = Map.empty, executor_threads = {}\<rparr>"

text \<open>\<open>str(n)\<close> of a natural number.\<close>

definition digit_char :: "nat \<Rightarrow> char" where
  "digit_char n = ''0123456789'' ! n"

fun string_of_nat :: "nat \<Rightarrow> string" where
  "string_of_nat n =
     (if n < 10 then [digit_char n]
      else string_of_nat (n div 10) @ [digit_char (n mod 10)])"

declare string_of_nat.simps [simp del]

text \<open>The identifier made from the clock, in seconds.\<close>

definition new_backtest_id :: "nat \<Rightarrow> string" where
  "new_backtest_id now = ''backtest_'' @ string_of_nat now"

text \<open>\<open>create_backtest\<close>; \<open>now\<close> is what the clock gives.\<close>

definition create_backtest :: "BacktestEngine \<Rightarrow> BacktestConfig \<Rightarrow> nat \<Rightarrow> string \<times> BacktestEngine" where
  "create_backtest e cfg now =
     (let bid = new_backtest_id now;
          result = \<lparr>backtest_id = bid, config = cfg, status = PENDING, metrics = None,
                    trades = [], equity_curve = [], created_at = now, started_at = None,
                    completed_at = None, error_message = None\<rparr>
      in (bid, e\<lparr>active_backtests := (active_backtests e)(bid \<mapsto> result)\<rparr>))"

text \<open>
  \<open>start_backtest\<close>: the two checks, then the worker thread is registered and started. What the
  worker does is \<open>run_backtest\<close> below.
\<close>

definition start_backtest :: "BacktestEngine \<Rightarrow> string \<Rightarrow> bool \<times> BacktestEngine" where
  "start_backtest e bid =
     (case active_backtests e bid of
        None \<Rightarrow> (False, e)
      | Some result \<Rightarrow>
          if status result \<noteq> PENDING then (False, e)
          else (True, e\<lparr>executor_threads := insert bid (executor_threads e)\<rparr>))"

text \<open>The first two assignments of the worker.\<close>

definition mark_running :: "BacktestResult \<Rightarrow> nat \<Rightarrow> BacktestResult" where
  "mark_running result t_start = result\<lparr>status := RUNNING, started_at := Some t_start\<rparr>"

definition no_data_message :: string where
  "no_data_message = ''Aucune donn'' @ [CHR 0xC3, CHR 0xA9] @ ''e historique disponible''"

text \<open>
  \<open>_run_backtest\<close>, the body of the worker. The lookup before the \<open>try\<close> raises when the
  identifier is not active. Inside the \<open>try\<close> the only exception of the model is the one raised
  when no data was loaded; the \<open>except\<close> branch then marks the run failed and leaves it where it
  is. The \<open>finally\<close> branch forgets the thread.
\<close>

definition run_backtest ::
  "BacktestEngine \<Rightarrow> string \<Rightarrow> provider \<Rightarrow> nat \<Rightarrow> nat \<Rightarrow> error + BacktestEngine" where
  "run_backtest e bid prov t_start t_end =
     (case active_backtests e bid of
        None \<Rightarrow> Inl KeyError
      | Some result \<Rightarrow>
          (let cfg = config result;
               running = mark_running result t_start;
               data = get_multiple_symbols prov (symbols cfg) (start_date cfg) (end_date cfg)
           in if data = [] then
                Inr (e\<lparr>active_backtests := (active_backtests e)(bid \<mapsto>
                          running\<lparr>status := FAILED, error_message := Some no_data_message,
                                  completed_at := Some t_end\<rparr>),
                        executor_threads := executor_threads e - {bid}\<rparr>)
              else
                (let portfolio = BacktestPortfolio_init (BacktestConfig.initial_capital cfg)
                                   (BacktestConfig.commission cfg) (BacktestConfig.slippage cfg)
                 in case simulate_days data 0 (trading_dates data)
                           (portfolio, trades running, equity_curve running) of
                      (p, ts, curve) \<Rightarrow>
                        (let finished = running\<lparr>trades := ts, equity_curve := curve,
                               metrics := Some (calculate_metrics curve ts (benchmark cfg) data),
                               status := COMPLETED, completed_at := Some t_end\<rparr>
                         in Inr (e\<lparr>completed_backtests := (completed_backtests e)(bid \<mapsto> finished),
                                   active_backtests := (active_backtests e)(bid := None),
                                   executor_threads := executor_threads e - {bid}\<rparr>)))))"

text \<open>
  A started run, with its worker run to its end before the next call on the engine: the runs are
  taken one call chain at a time, without two workers interleaved.
\<close>

definition start_and_run ::
  "BacktestEngine \<Rightarrow> string \<Rightarrow> provider \<Rightarrow> nat \<Rightarrow> nat \<Rightarrow> bool \<times> BacktestEngine" where
  "start_and_run e bid prov t_start t_end =
     (case start_backtest e bid of
        (False, e') \<Rightarrow> (False, e')
      | (True, e') \<Rightarrow>
          (case run_backtest e' bid prov t_start t_end of
             Inl err \<Rightarrow> (True, e')
           | Inr e'' \<Rightarrow> (True, e'')))"

text \<open>\<open>get_backtest_status\<close>: the dictionary it returns.\<close>

record StatusSummary =
  st_id :: string
  st_name :: string
  st_status :: BacktestStatus
  st_created_at :: nat
  st_started_at :: "nat option"
  st_completed_at :: "nat option"
  st_error_message :: "string option"
  st_total_trades :: nat
  st_equity_points :: nat

definition summary_of :: "BacktestResult \<Rightarrow> StatusSummary" where
  "summary_of result =
     \<lparr>st_id = backtest_id result, st_name = name (config result), st_status = status result,
      st_created_at = created_at result, st_started_at = started_at result,
      st_completed_at = completed_at result, st_error_message = error_message result,
      st_total_trades = length (trades result), st_equity_points = length (equity_curve result)\<rparr>"

definition get_backtest_status :: "BacktestEngine \<Rightarrow> string \<Rightarrow> StatusSummary option" where
  "get_backtest_status e bid =
     (case active_backtests e bid of
        Some result \<Rightarrow> Some (summary_of result)
      | None \<Rightarrow> map_option summary_of (completed_backtests e bid))"

definition get_backtest_results :: "BacktestEngine \<Rightarrow> string \<Rightarrow> BacktestResult option" where
  "get_backtest_results e bid = completed_backtests e bid"

subsection \<open>The worker thread, step by step\<close>

text \<open>
  \<open>start_backtest\<close> returns as soon as the worker thread is started, with the status still
  pending; the worker then runs on its own. Its body is taken in two steps, so that a call on the
  engine can fall between them: the lookup and the two assignments that mark the run running,
  and the rest. The worker's variable \<open>result\<close> is the object stored under the identifier; each
  step finds it again there, among the active runs or, when another worker of the same run has
  moved it, among the completed ones. That is the worker's own object as long as no
  \<open>create_backtest\<close> has reused the identifier.
\<close>

definition worker_begin :: "BacktestEngine \<Rightarrow> string \<Rightarrow> nat \<Rightarrow> error + BacktestEngine" where
  "worker_begin e bid t_start =
     (case active_backtests e bid of
        None \<Rightarrow> Inl KeyError
      | Some result \<Rightarrow>
          Inr (e\<lparr>active_backtests := (active_backtests e)(bid \<mapsto> mark_running result t_start)\<rparr>))"

text \<open>
  What the \<open>try\<close> block makes of the run: \<open>False\<close> and the run marked failed when no data was
  loaded, \<open>True\<close> and the run simulated and marked completed otherwise.
\<close>

definition run_outcome :: "BacktestResult \<Rightarrow> provider \<Rightarrow> nat \<Rightarrow> bool \<times> BacktestResult" where
  "run_outcome running prov t_end =
     (let cfg = config running;
          data = get_multiple_symbols prov (symbols cfg) (start_date cfg) (end_date cfg)
      in if data = [] then
           (False, running\<lparr>status := FAILED, error_message := Some no_data_message,
                           completed_at := Some t_end\<rparr>)
         else
           (let portfolio = BacktestPortfolio_init (BacktestConfig.initial_capital cfg)
                              (BacktestConfig.commission cfg) (BacktestConfig.slippage cfg)
            in case simulate_days data 0 (trading_dates data)
                      (portfolio, trades running, equity_curve running) of
                 (p, ts, curve) \<Rightarrow>
                   (True, running\<lparr>trades := ts, equity_curve := curve,
                      metrics := Some (calculate_metrics curve ts (benchmark cfg) data),
                      status := COMPLETED, completed_at := Some t_end\<rparr>)))"

text \<open>\<open>str(e)\<close> of the \<open>KeyError\<close> that \<open>del\<close> raises: the identifier in quotes.\<close>

definition key_error_message :: "string \<Rightarrow> string" where
  "key_error_message bid = [CHR 0x27] @ bid @ [CHR 0x27]"

text \<open>
  The rest of the worker. When the run is no longer among the active ones, \<open>del\<close> raises after
  the run was stored as completed, and the \<open>except\<close> branch marks it failed.
\<close>

definition worker_finish :: "BacktestEngine \<Rightarrow> string \<Rightarrow> provider \<Rightarrow> nat \<Rightarrow> BacktestEngine" where
  "worker_finish e bid prov t_end =
     (case active_backtests e bid of
        Some running \<Rightarrow>
          (case run_outcome running prov t_end of
             (False, failed) \<Rightarrow>
               e\<lparr>active_backtests := (active_backtests e)(bid \<mapsto> failed),
                 executor_threads := executor_threads e - {bid}\<rparr>
           | (True, finished) \<Rightarrow>
               e\<lparr>completed_backtests := (completed_backtests e)(bid \<mapsto> finished),
                 active_backtests := (active_backtests e)(bid := None),
                 executor_threads := executor_threads e - {bid}\<rparr>)
      | None \<Rightarrow>
          (case completed_backtests e bid of
             None \<Rightarrow> e\<lparr>executor_threads := executor_threads e - {bid}\<rparr>
           | Some moved \<Rightarrow>
               (case run_outcome moved prov t_end of
                  (False, failed) \<Rightarrow>
                    e\<lparr>completed_backtests := (completed_backtests e)(bid \<mapsto> failed),
                      executor_threads := executor_threads e - {bid}\<rparr>
                | (True, finished) \<Rightarrow>
                    e\<lparr>completed_backtests := (completed_backtests e)(bid \<mapsto>
                          finished\<lparr>status := FAILED,
                                   error_message := Some (key_error_message bid),
                                   completed_at := Some t_end\<rparr>),
                      executor_threads := executor_threads e - {bid}\<rparr>)))"

text \<open>
  The engine together with its worker threads: the runs whose worker is started and has not
  yet looked its run up, and the runs whose worker has marked them running and has not finished.
  A run started twice has two workers, so both are lists.
\<close>

record System =
  engine :: BacktestEngine
  spawned :: "string list"
  begun :: "string list"

definition System_init :: System where
  "System_init = \<lparr>engine = BacktestEngine_init, spawned = [], begun = []\<rparr>"

text \<open>What can happen next: a call on the engine, or a step of one of the workers.\<close>

datatype event =
    CallCreate BacktestConfig nat
  | CallStart string
  | WorkerBegin string nat
  | WorkerFinish string provider nat
  | CallGetStatus string
  | CallGetResults string
  | CallListBacktests

fun sys_step :: "event \<Rightarrow> System \<Rightarrow> System" where
  "sys_step (CallCreate cfg now) s = s\<lparr>engine := snd (create_backtest (engine s) cfg now)\<rparr>"
| "sys_step (CallStart bid) s =
     (case start_backtest (engine s) bid of
        (True, e') \<Rightarrow> s\<lparr>engine := e', spawned := bid # spawned s\<rparr>
      | (False, e') \<Rightarrow> s\<lparr>engine := e'\<rparr>)"
| "sys_step (WorkerBegin bid t_start) s =
     (if bid \<in> set (spawned s) then
        (case worker_begin (engine s) bid t_start of
           Inl err \<Rightarrow> s\<lparr>spawned := remove1 bid (spawned s)\<rparr>
         | Inr e' \<Rightarrow> s\<lparr>engine := e', spawned := remove1 bid (spawned s), begun := bid # begun s\<rparr>)
      else s)"
| "sys_step (WorkerFinish bid prov t_end) s =
     (if bid \<in> set (begun s) then
        s\<lparr>engine := worker_finish (engine s) bid prov t_end, begun := remove1 bid (begun s)\<rparr>
      else s)"
| "sys_step (CallGetStatus bid) s = s"
| "sys_step (CallGetResults bid) s = s"
| "sys_step CallListBacktests s = s"

definition run_trace :: "event list \<Rightarrow> System \<Rightarrow> System" where
  "run_trace evs s = fold sys_step evs s"

text \<open>
  The two disciplines on the caller: a \<open>create_backtest\<close> gets an identifier that neither
  dictionary has, and \<open>start_backtest\<close> is not called for a run whose worker is started and
  has not yet marked it running.
\<close>

fun allowed :: "event \<Rightarrow> System \<Rightarrow> bool" where
  "allowed (CallCreate cfg now) s =
     (active_backtests (engine s) (new_backtest_id now) = None
      \<and> completed_backtests (engine s) (new_backtest_id now) = None)"
| "allowed (CallStart bid) s = (bid \<notin> set (spawned s))"
| "allowed _ s = True"

fun trace_allowed :: "event list \<Rightarrow> System \<Rightarrow> bool" where
  "trace_allowed [] s = True"
| "trace_allowed (ev # evs) s = (allowed ev s \<and> trace_allowed evs (sys_step ev s))"

text \<open>
  Every run has at most one worker; a run whose worker is started is active and pending, a run
  whose worker has begun is active and running.
\<close>

definition workers_consistent :: "System \<Rightarrow> bool" where
  "workers_consistent s =
     (distinct (spawned s @ begun s)
      \<and> (\<forall>b\<in>set (spawned s). \<exists>r. active_backtests (engine s) b = Some r \<and> status r = PENDING)
      \<and> (\<forall>b\<in>set (begun s). \<exists>r. active_backtests (engine s) b = Some r \<and> status r = RUNNING))"

definition terminal :: "BacktestStatus \<Rightarrow> bool" where
  "terminal s = (s = COMPLETED \<or> s = FAILED \<or> s = CANCELLED)"

text \<open>The steps forward: from pending to running, from running to completed or failed.\<close>

inductive forward :: "BacktestStatus \<Rightarrow> BacktestStatus \<Rightarrow> bool" where
  start: "forward PENDING RUNNING"
| complete: "forward RUNNING COMPLETED"
| fail: "forward RUNNING FAILED"

text \<open>The status that \<open>get_backtest_status\<close> reports for an identifier.\<close>

definition run_status :: "BacktestEngine \<Rightarrow> string \<Rightarrow> BacktestStatus option" where
  "run_status e bid = map_option st_status (get_backtest_status e bid)"

subsection \<open>Example inputs\<close>

definition example_config :: BacktestConfig where
  "example_config =
     \<lparr>name = ''demo'', description = ''a run'', symbols = [''TEST''],
      start_date = ''2024-01-01'', end_date = ''2024-03-01'', initial_capital = 100000,
      trading_config = [], risk_config = [], benchmark = ''SPY'',
      commission = 0.001, slippage = 0.0005\<rparr>"

text \<open>A provider that loads nothing.\<close>

definition no_data :: provider where
  "no_data s a b = None"

section \<open>Properties of the portfolio\<close>

lemma execute_trade_cases:
  "execute_trade p smb sd qty price d rsn = (r, p') \<Longrightarrow>
   (r = None \<and> p' = p) \<or> (r \<noteq> None \<and> (sd = ''BUY'' \<or> sd = ''SELL''))"
  by (auto simp: execute_trade_def Let_def split: if_splits)

lemmas portfolio_eval =
  apply_ops_def execute_trade_def Let_def positions_get_def BacktestPortfolio_init_def

text \<open>
  Claim C5. A call of \<open>execute_trade\<close> that violates a constraint: a BUY with less cash than
  trade value plus commission, a SELL of more than the held quantity, or a side that is neither
  BUY nor SELL, returns no trade and leaves the whole portfolio (cash, positions, current prices,
  total value and positions value) as it was.
\<close>

theorem execute_trade_rejected_unchanged:
  "(sd = ''BUY'' \<and> cash p < real_of_int qty * (price * (1 + slippage p))
        + real_of_int qty * (price * (1 + slippage p)) * commission p)
   \<or> (sd = ''SELL'' \<and> positions_get (positions p) smb < qty)
   \<or> (sd \<noteq> ''BUY'' \<and> sd \<noteq> ''SELL'')
   \<Longrightarrow> execute_trade p smb sd qty price d rsn = (None, p)"
  by (auto simp: execute_trade_def Let_def)

theorem execute_trade_rejected_unchanged_witness:
  "execute_trade (BacktestPortfolio_init 100 0.001 0.0005) ''TEST'' ''BUY'' 10 50 1 ''Signal''
     = (None, BacktestPortfolio_init 100 0.001 0.0005)
   \<and> execute_trade (BacktestPortfolio_init 100000 0.001 0.0005) ''TEST'' ''SELL'' 10 50 1 ''Signal''
     = (None, BacktestPortfolio_init 100000 0.001 0.0005)
   \<and> execute_trade (BacktestPortfolio_init 100000 0.001 0.0005) ''TEST'' ''HOLD'' 10 50 1 ''Signal''
     = (None, BacktestPortfolio_init 100000 0.001 0.0005)"
proof -
  let ?a = "BacktestPortfolio_init 100 0.001 0.0005"
  let ?b = "BacktestPortfolio_init 100000 0.001 0.0005"
  have 1: "execute_trade ?a ''TEST'' ''BUY'' 10 50 1 ''Signal'' = (None, ?a)"
    by (rule execute_trade_rejected_unchanged) (simp add: BacktestPortfolio_init_def)
  have 2: "execute_trade ?b ''TEST'' ''SELL'' 10 50 1 ''Signal'' = (None, ?b)"
    by (rule execute_trade_rejected_unchanged)
       (simp add: BacktestPortfolio_init_def positions_get_def)
  have 3: "execute_trade ?b ''TEST'' ''HOLD'' 10 50 1 ''Signal'' = (None, ?b)"
    by (rule execute_trade_rejected_unchanged) simp
  from 1 2 3 show ?thesis by simp
qed

text \<open>
  Claim C8. For an accepted trade: the execution price is the price times (1 + slippage) for
  a BUY and times (1 - slippage) for a SELL; the commission is quantity times execution price
  times the commission rate; a BUY takes trade value plus commission from the cash; a SELL adds
  trade value minus commission to the cash, removes the entry of the symbol when its quantity
  reaches zero, and returns a closed trade whose exit date is its entry date.
\<close>

theorem execute_trade_accepted_effect:
  assumes "execute_trade p smb sd qty price d rsn = (Some t, p')"
  shows "(sd = ''BUY'' \<or> sd = ''SELL'')
    \<and> (sd = ''BUY'' \<longrightarrow>
          entry_price t = price * (1 + slippage p)
        \<and> Trade.commission t = real_of_int qty * entry_price t * commission p
        \<and> cash p' = cash p - (real_of_int qty * entry_price t + Trade.commission t))
    \<and> (sd = ''SELL'' \<longrightarrow>
          entry_price t = price * (1 - slippage p)
        \<and> exit_price t = Some (entry_price t)
        \<and> Trade.commission t = real_of_int qty * entry_price t * commission p
        \<and> cash p' = cash p + (real_of_int qty * entry_price t - Trade.commission t)
        \<and> positions p' =
            (if positions_get (positions p) smb - qty = 0 then (positions p)(smb := None)
             else (positions p)(smb \<mapsto> positions_get (positions p) smb - qty))
        \<and> entry_date t = d \<and> exit_date t = Some (entry_date t))"
  using assms by (auto simp: execute_trade_def Let_def split: if_splits)

theorem execute_trade_accepted_effect_witness:
  "\<exists>t p'. execute_trade
             ((BacktestPortfolio_init 100000 0.001 0.0005)\<lparr>positions := [''TEST'' \<mapsto> 100]\<rparr>)
             ''TEST'' ''SELL'' 100 110 2 ''Signal'' = (Some t, p')
     \<and> entry_price t = 110 * (1 - 0.0005) \<and> exit_date t = Some 2
     \<and> positions p' ''TEST'' = None
     \<and> cash p' = 100000 + (100 * (110 * (1 - 0.0005)) - 100 * (110 * (1 - 0.0005)) * 0.001)"
proof -
  let ?p = "(BacktestPortfolio_init 100000 0.001 0.0005)\<lparr>positions := [''TEST'' \<mapsto> 100]\<rparr>"
  obtain t p' where h: "execute_trade ?p ''TEST'' ''SELL'' 100 110 2 ''Signal'' = (Some t, p')"
    by (simp add: execute_trade_def Let_def positions_get_def BacktestPortfolio_init_def)
  from execute_trade_accepted_effect [OF h]
  have "entry_price t = 110 * (1 - 0.0005) \<and> exit_date t = Some 2
     \<and> positions p' ''TEST'' = None
     \<and> cash p' = 100000 + (100 * (110 * (1 - 0.0005)) - 100 * (110 * (1 - 0.0005)) * 0.001)"
    by (simp add: positions_get_def BacktestPortfolio_init_def)
  with h show ?thesis by blast
qed




subsection \<open>Cash and positions stay in bounds\<close>









text \<open>
  Claim C2 at the round trip of the specification: 100 units bought at 100 and sold at 110,
  without slippage and commission. The cash ends at 101000 and the SELL returns a closed trade,
  but its \<open>pnl\<close> is \<open>None\<close>, not 1000: \<open>execute_trade\<close> never assigns the field.
\<close>

theorem round_trip_sell_pnl_unset:
  "(case execute_trade
          (snd (execute_trade (BacktestPortfolio_init 100000 0 0)
                  ''TEST'' ''BUY'' 100 100 1 ''Signal''))
          ''TEST'' ''SELL'' 100 110 2 ''Signal'' of
      (r, p') \<Rightarrow> map_option pnl r = Some None \<and> map_option exit_date r = Some (Some 2)
                 \<and> cash p' = 101000)"
  by (simp add: portfolio_eval)

section \<open>Properties of the daily loop and of the metrics\<close>

text \<open>
  Claim C1 at a run the engine can make: one symbol with a Close of 100 on days 1 to 20 and of
  110 on day 21, capital 100000, commission 0.001, slippage 0.0005. On day 21 the momentum rule
  buys 100 units. \<open>update_prices\<close> has set \<open>total_value\<close> before the trade and \<open>execute_trade\<close>
  changes the cash only, so the point recorded for the day has the equity of before the trade
  and the cash of after it: equity is not cash plus positions value.
\<close>

theorem equity_point_stale_after_trade:
  "(case simulate_days [(''TEST'', map (\<lambda>i. (i, 100)) [1..20] @ [(21, 110)])] 0
           (trading_dates [(''TEST'', map (\<lambda>i. (i, 100)) [1..20] @ [(21, 110)])])
           (BacktestPortfolio_init 100000 0.001 0.0005, [], []) of
     (p, ts, curve) \<Rightarrow>
        length ts = 1 \<and> length curve = 21
      \<and> ep_equity (last curve) = 100000
      \<and> ep_cash (last curve) =
          100000 - (100 * (110 * (1 + 0.0005)) + 100 * (110 * (1 + 0.0005)) * 0.001)
      \<and> ep_positions_value (last curve) = 0
      \<and> ep_equity (last curve) \<noteq> ep_cash (last curve) + ep_positions_value (last curve))"
  by code_simp

subsection \<open>No trade of a run carries a profit or loss\<close>

lemma execute_trade_pnl:
  "execute_trade p smb sd qty price d rsn = (Some t, p') \<Longrightarrow> pnl t = None"
  by (auto simp: execute_trade_def Let_def split: if_splits)

lemma execute_signals_pnl:
  "execute_signals sgs d (p, ts) = (p', ts') \<Longrightarrow> \<forall>t\<in>set ts. pnl t = None
     \<Longrightarrow> \<forall>t\<in>set ts'. pnl t = None"
proof (induction sgs arbitrary: p ts)
  case Nil
  then show ?case by simp
next
  case (Cons sg sgs)
  obtain r q where e: "execute_trade p (sig_symbol sg) (sig_side sg) (sig_quantity sg)
      (sig_price sg) d (sig_reason sg) = (r, q)"
    by (cases "execute_trade p (sig_symbol sg) (sig_side sg) (sig_quantity sg)
      (sig_price sg) d (sig_reason sg)")
  show ?case
  proof (cases r)
    case None
    with Cons.prems e have "execute_signals sgs d (q, ts) = (p', ts')" by simp
    then show ?thesis using Cons.prems(2) by (rule Cons.IH)
  next
    case (Some t)
    with Cons.prems e have run: "execute_signals sgs d (q, ts @ [t]) = (p', ts')" by simp
    from Some e have "pnl t = None" by (auto dest: execute_trade_pnl)
    with Cons.prems(2) have "\<forall>x\<in>set (ts @ [t]). pnl x = None" by simp
    with run show ?thesis by (rule Cons.IH)
  qed
qed


lemma simulate_day_pnl:
  assumes "simulate_day data i d (p, ts, curve) = (p', ts', curve')"
    and "\<forall>t\<in>set ts. pnl t = None"
  shows "\<forall>t\<in>set ts'. pnl t = None"
proof -
  obtain q us where e: "execute_signals (simulate_trading_signals data d i) d
      (update_prices p d (day_prices data d), ts) = (q, us)"
    by (cases "execute_signals (simulate_trading_signals data d i) d
      (update_prices p d (day_prices data d), ts)")
  with assms(1) have "ts' = us" by (simp add: simulate_day_def day_with_signals_def)
  with execute_signals_pnl [OF e assms(2)] show ?thesis by simp
qed

lemma simulate_days_pnl:
  "simulate_days data i ds (p, ts, curve) = (p', ts', curve') \<Longrightarrow> \<forall>t\<in>set ts. pnl t = None
     \<Longrightarrow> \<forall>t\<in>set ts'. pnl t = None"
proof (induction ds arbitrary: i p ts curve)
  case Nil
  then show ?case by simp
next
  case (Cons d ds)
  obtain q us cv where e: "simulate_day data i d (p, ts, curve) = (q, us, cv)"
    by (cases "simulate_day data i d (p, ts, curve)")
  from simulate_day_pnl [OF e Cons.prems(2)] have u: "\<forall>t\<in>set us. pnl t = None" .
  from Cons.prems(1) e have r: "simulate_days data (Suc i) ds (q, us, cv) = (p', ts', curve')"
    by simp
  from r u show ?case by (rule Cons.IH)
qed

lemma no_pnl_no_winner: "\<forall>t\<in>set ts. pnl t = None \<Longrightarrow> filter is_winning (filter P ts) = []"
  by (induction ts) (auto simp: is_winning_def)

lemma no_pnl_no_loser: "\<forall>t\<in>set ts. pnl t = None \<Longrightarrow> filter is_losing (filter P ts) = []"
  by (induction ts) (auto simp: is_losing_def)


lemma metrics_body_no_pnl_eq:
  assumes "\<forall>t\<in>set ts. pnl t = None"
  shows "metrics_body curve ts bench data =
     (if curve = [] then Inl NoEquityCurve
      else case map_of data bench of
             Some [] \<Rightarrow> Inl IndexError
           | _ \<Rightarrow> Inr \<lparr>win_rate = 0, profit_factor = PosInf,
                        total_trades = length (filter (\<lambda>t. exit_date t \<noteq> None) ts),
                        winning_trades = 0, losing_trades = 0, avg_win = 0, avg_loss = 0,
                        largest_win = 0, largest_loss = 0\<rparr>)"
proof -
  have w: "filter is_winning (filter (\<lambda>t. exit_date t \<noteq> None) ts) = []"
    using assms by (rule no_pnl_no_winner)
  have l: "filter is_losing (filter (\<lambda>t. exit_date t \<noteq> None) ts) = []"
    using assms by (rule no_pnl_no_loser)
  show ?thesis
    unfolding metrics_body_def Let_def w l
    by (simp add: py_div_def split: option.split list.split)
qed


text \<open>
  Claim C9. For the trades and the equity curve of any run, when the metrics are computed
  without an exception, whatever the number of trades: no trade counts as winning or losing, the
  win rate, the average and the largest win and loss are 0, and the profit factor is infinite,
  since \<open>execute_trade\<close> leaves the \<open>pnl\<close> of every trade unset.
\<close>

theorem metrics_never_count_wins_or_losses:
  assumes "simulate_days data 0 (trading_dates data)
             (BacktestPortfolio_init capital commission_rate slippage_rate, [], []) = (p, ts, curve)"
    and "metrics_body curve ts bench data = Inr m"
  shows "winning_trades m = 0 \<and> losing_trades m = 0 \<and> win_rate m = 0
     \<and> avg_win m = 0 \<and> avg_loss m = 0 \<and> largest_win m = 0 \<and> largest_loss m = 0
     \<and> profit_factor m = PosInf"
proof -
  from simulate_days_pnl [OF assms(1)] have "\<forall>t\<in>set ts. pnl t = None" by simp
  from assms(2) [unfolded metrics_body_no_pnl_eq [OF this]] show ?thesis
    by (auto split: if_splits option.splits list.splits)
qed

theorem metrics_never_count_wins_or_losses_witness:
  "\<exists>p ts curve m.
     simulate_days [(''TEST'', map (\<lambda>i. (i, 100)) [1..20] @ [(21, 110), (22, 80)])] 0
       (trading_dates [(''TEST'', map (\<lambda>i. (i, 100)) [1..20] @ [(21, 110), (22, 80)])])
       (BacktestPortfolio_init 100000 0.001 0.0005, [], []) = (p, ts, curve)
     \<and> metrics_body curve ts ''SPY''
           [(''TEST'', map (\<lambda>i. (i, 100)) [1..20] @ [(21, 110), (22, 80)])] = Inr m
     \<and> length ts = 2 \<and> total_trades m = 1 \<and> winning_trades m = 0 \<and> losing_trades m = 0
     \<and> win_rate m = 0 \<and> profit_factor m = PosInf"
proof -
  let ?data = "[(''TEST'', map (\<lambda>i. (i, 100)) [1..20] @ [(21, 110), (22, 80)])] :: market_data"
  obtain p ts curve where h:
    "simulate_days ?data 0 (trading_dates ?data)
       (BacktestPortfolio_init 100000 0.001 0.0005, [], []) = (p, ts, curve)"
    using prod_cases3 by blast
  have "(case simulate_days ?data 0 (trading_dates ?data)
                (BacktestPortfolio_init 100000 0.001 0.0005, [], []) of
           (p, ts, curve) \<Rightarrow>
             (case metrics_body curve ts ''SPY'' ?data of
                Inl e \<Rightarrow> False
              | Inr m \<Rightarrow> length ts = 2 \<and> total_trades m = 1))"
    by code_simp
  with h obtain m where m: "metrics_body curve ts ''SPY'' ?data = Inr m"
    and n: "length ts = 2" "total_trades m = 1"
    by (auto split: sum.splits)
  from metrics_never_count_wins_or_losses [OF h m] h m n show ?thesis by blast
qed

subsection \<open>Metrics of a run without closed trades\<close>

lemma no_exit_no_completed:
  "\<forall>t\<in>set ts. exit_date t = None \<Longrightarrow> filter (\<lambda>t. exit_date t \<noteq> None) ts = []"
  by (induction ts) auto

text \<open>
  Claim C3, as the code has it. For a trade list without a closed trade, the computation of the
  metrics raises no division error and the win rate is 0; the profit factor is infinite, and it
  is 0 only where the computation falls back on the record of zeros: on an empty equity curve,
  or on a benchmark series that is loaded but empty.
\<close>

theorem metrics_without_closed_trades:
  assumes "\<forall>t\<in>set ts. exit_date t = None"
  shows "metrics_body curve ts bench data \<noteq> Inl ZeroDivisionError
     \<and> win_rate (calculate_metrics curve ts bench data) = 0
     \<and> profit_factor (calculate_metrics curve ts bench data) =
         (if curve = [] \<or> map_of data bench = Some [] then Num 0 else PosInf)"
proof -
  have c: "filter (\<lambda>t. exit_date t \<noteq> None) ts = []"
    using assms by (rule no_exit_no_completed)
  have b: "metrics_body curve ts bench data =
     (if curve = [] then Inl NoEquityCurve
      else case map_of data bench of
             Some [] \<Rightarrow> Inl IndexError
           | _ \<Rightarrow> Inr \<lparr>win_rate = 0, profit_factor = PosInf, total_trades = 0,
                        winning_trades = 0, losing_trades = 0, avg_win = 0, avg_loss = 0,
                        largest_win = 0, largest_loss = 0\<rparr>)"
    unfolding metrics_body_def Let_def c
    by (simp split: option.split list.split)
  show ?thesis
    unfolding calculate_metrics_def b
    by (simp add: zero_metrics_def split: option.split list.split)
qed

theorem metrics_without_closed_trades_witness:
  "win_rate (calculate_metrics
      [\<lparr>ep_date = 1, ep_equity = 100000, ep_cash = 100000, ep_positions_value = 0\<rparr>]
      [\<lparr>symbol = ''TEST'', entry_date = 1, exit_date = None, entry_price = 100,
        exit_price = None, quantity = 100, side = ''BUY'', pnl = None, commission = 10,
        reason = ''Momentum positif''\<rparr>]
      ''SPY'' [(''TEST'', [(1, 100)])]) = 0
   \<and> profit_factor (calculate_metrics
      [\<lparr>ep_date = 1, ep_equity = 100000, ep_cash = 100000, ep_positions_value = 0\<rparr>]
      [\<lparr>symbol = ''TEST'', entry_date = 1, exit_date = None, entry_price = 100,
        exit_price = None, quantity = 100, side = ''BUY'', pnl = None, commission = 10,
        reason = ''Momentum positif''\<rparr>]
      ''SPY'' [(''TEST'', [(1, 100)])]) = PosInf"
  using metrics_without_closed_trades
      [of "[\<lparr>symbol = ''TEST'', entry_date = 1, exit_date = None, entry_price = 100,
        exit_price = None, quantity = 100, side = ''BUY'', pnl = None, commission = 10,
        reason = ''Momentum positif''\<rparr>]"
      "[\<lparr>ep_date = 1, ep_equity = 100000, ep_cash = 100000, ep_positions_value = 0\<rparr>]"
      "''SPY''" "[(''TEST'', [(1, 100)])]"]
  by simp

text \<open>
  The claim as stated, a profit factor of 0, fails on a run with one equity point and no trade
  at all: its profit factor is infinite.
\<close>

theorem profit_factor_not_zero_without_trades:
  "profit_factor (calculate_metrics
      [\<lparr>ep_date = 1, ep_equity = 100000, ep_cash = 100000, ep_positions_value = 0\<rparr>] []
      ''SPY'' [(''TEST'', [(1, 100)])]) \<noteq> Num 0"
  by (simp add: calculate_metrics_def metrics_body_def)

section \<open>Properties of the engine\<close>

lemma new_backtest_id_example: "new_backtest_id 1700000000 = ''backtest_1700000000''"
  by (simp add: new_backtest_id_def string_of_nat.simps digit_char_def)

lemma run_status_eq:
  "run_status e b = (case active_backtests e b of Some r \<Rightarrow> Some (status r)
                      | None \<Rightarrow> map_option status (completed_backtests e b))"
  by (simp add: run_status_def get_backtest_status_def summary_of_def map_option_case
      split: option.split)

lemmas engine_eval = create_backtest_def start_and_run_def start_backtest_def run_backtest_def
  BacktestEngine_init_def example_config_def no_data_def get_multiple_symbols_def
  mark_running_def get_backtest_results_def run_status_eq Let_def

text \<open>
  Claim C4 at a run that fails: a run is created and started, and no data can be loaded. The
  worker marks the run failed and leaves it in the dictionary of the active runs; it is not in
  the dictionary of the completed runs, and \<open>get_backtest_results\<close> returns \<open>None\<close> for it.
\<close>

theorem failed_run_stays_active:
  "(case create_backtest BacktestEngine_init example_config 1700000000 of
      (bid, e) \<Rightarrow>
        (case start_and_run e bid no_data 1700000001 1700000002 of
           (ok, e') \<Rightarrow>
             bid = ''backtest_1700000000'' \<and> ok
             \<and> map_option status (active_backtests e' bid) = Some FAILED
             \<and> completed_backtests e' bid = None
             \<and> get_backtest_results e' bid = None
             \<and> run_status e' bid = Some FAILED))"
  by (simp add: engine_eval new_backtest_id_example)

subsection \<open>The status of a run, call by call and step by step\<close>

text \<open>
  The body of the worker in one piece, as \<open>run_backtest\<close> has it, is its two steps one after
  the other.
\<close>

lemma run_outcome_status:
  "run_outcome r prov t = (ok, r') \<Longrightarrow> status r' = (if ok then COMPLETED else FAILED)"
  by (auto simp: run_outcome_def Let_def split: if_splits prod.splits)

lemma run_backtest_in_steps:
  "run_backtest e bid prov t1 t2 =
     (case worker_begin e bid t1 of
        Inl err \<Rightarrow> Inl err
      | Inr e' \<Rightarrow> Inr (worker_finish e' bid prov t2))"
  by (simp add: run_backtest_def worker_begin_def worker_finish_def run_outcome_def
      mark_running_def Let_def split: option.split prod.split)

lemma consistent_init: "workers_consistent System_init"
  by (simp add: workers_consistent_def System_init_def)

lemma consistent_create:
  assumes "workers_consistent s" "allowed (CallCreate cfg now) s"
  shows "workers_consistent (sys_step (CallCreate cfg now) s)"
  using assms
  by (auto simp: workers_consistent_def create_backtest_def Let_def)

lemma consistent_start:
  assumes "workers_consistent s" "allowed (CallStart bid) s"
  shows "workers_consistent (sys_step (CallStart bid) s)"
proof (cases "\<exists>r. active_backtests (engine s) bid = Some r \<and> status r = PENDING")
  case False
  then have "start_backtest (engine s) bid = (False, engine s)"
    by (auto simp: start_backtest_def split: option.splits)
  then show ?thesis using assms(1) by (simp add: workers_consistent_def)
next
  case True
  then obtain r where r: "active_backtests (engine s) bid = Some r" "status r = PENDING"
    by blast
  have sb: "start_backtest (engine s) bid
      = (True, (engine s)\<lparr>executor_threads := insert bid (executor_threads (engine s))\<rparr>)"
    using r by (simp add: start_backtest_def)
  have "bid \<notin> set (begun s)"
    using assms(1) r by (auto simp: workers_consistent_def)
  moreover have "bid \<notin> set (spawned s)" using assms(2) by simp
  ultimately show ?thesis
    using assms(1) r by (auto simp: workers_consistent_def sb)
qed

lemma consistent_begin:
  assumes "workers_consistent s"
  shows "workers_consistent (sys_step (WorkerBegin bid t) s)"
proof (cases "bid \<in> set (spawned s)")
  case False
  then show ?thesis using assms by simp
next
  case True
  with assms obtain r where r: "active_backtests (engine s) bid = Some r" "status r = PENDING"
    by (auto simp: workers_consistent_def)
  from assms have d: "distinct (spawned s)" "distinct (begun s)"
    "set (spawned s) \<inter> set (begun s) = {}"
    by (auto simp: workers_consistent_def)
  have wb: "worker_begin (engine s) bid t
     = Inr ((engine s)\<lparr>active_backtests := (active_backtests (engine s))(bid \<mapsto> mark_running r t)\<rparr>)"
    using r by (simp add: worker_begin_def)
  show ?thesis
    using assms True d r
    by (auto simp: workers_consistent_def wb mark_running_def set_remove1_eq)
qed

lemma consistent_finish:
  assumes "workers_consistent s"
  shows "workers_consistent (sys_step (WorkerFinish bid prov t) s)"
proof (cases "bid \<in> set (begun s)")
  case False
  then show ?thesis using assms by simp
next
  case True
  with assms obtain r where r: "active_backtests (engine s) bid = Some r" "status r = RUNNING"
    by (auto simp: workers_consistent_def)
  from assms have d: "distinct (spawned s)" "distinct (begun s)"
    "set (spawned s) \<inter> set (begun s) = {}"
    by (auto simp: workers_consistent_def)
  obtain ok r' where o: "run_outcome r prov t = (ok, r')" by (cases "run_outcome r prov t")
  show ?thesis
    using assms True d r o
    by (cases ok) (auto simp: workers_consistent_def worker_finish_def set_remove1_eq)
qed

lemma consistent_step:
  "workers_consistent s \<Longrightarrow> allowed ev s \<Longrightarrow> workers_consistent (sys_step ev s)"
  by (cases ev) (simp_all add: consistent_create consistent_start consistent_begin
      consistent_finish del: sys_step.simps allowed.simps, simp_all)

lemma consistent_trace:
  "workers_consistent s \<Longrightarrow> trace_allowed evs s \<Longrightarrow> workers_consistent (run_trace evs s)"
  unfolding run_trace_def
  by (induction evs arbitrary: s) (auto simp: consistent_step)


lemma step_status:
  assumes "workers_consistent s" "allowed ev s" "run_status (engine s) b = Some st"
  shows "\<exists>st'. run_status (engine (sys_step ev s)) b = Some st'
     \<and> (st' = st \<or> forward st st') \<and> (terminal st \<longrightarrow> st' = st)"
proof (cases ev)
  case (CallCreate cfg now)
  with assms(2,3) show ?thesis
    by (auto simp: run_status_eq create_backtest_def Let_def split: option.splits)
next
  case (CallStart bid)
  then show ?thesis using assms(3)
    by (auto simp: run_status_eq start_backtest_def split: option.splits if_splits)
next
  case (WorkerBegin bid t)
  show ?thesis
  proof (cases "bid \<in> set (spawned s)")
    case False
    with WorkerBegin assms(3) show ?thesis by simp
  next
    case True
    with assms(1) obtain r where r: "active_backtests (engine s) bid = Some r" "status r = PENDING"
      by (auto simp: workers_consistent_def)
    then have wb: "worker_begin (engine s) bid t
       = Inr ((engine s)\<lparr>active_backtests := (active_backtests (engine s))(bid \<mapsto> mark_running r t)\<rparr>)"
      by (simp add: worker_begin_def)
    show ?thesis
      using WorkerBegin True r assms(3)
      by (auto simp: run_status_eq wb mark_running_def terminal_def forward.start
          split: option.splits)
  qed
next
  case (WorkerFinish bid prov t)
  show ?thesis
  proof (cases "bid \<in> set (begun s)")
    case False
    with WorkerFinish assms(3) show ?thesis by simp
  next
    case True
    with assms(1) obtain r where r: "active_backtests (engine s) bid = Some r" "status r = RUNNING"
      by (auto simp: workers_consistent_def)
    obtain ok r' where o: "run_outcome r prov t = (ok, r')" by (cases "run_outcome r prov t")
    from run_outcome_status [OF o] have st: "status r' = (if ok then COMPLETED else FAILED)" .
    show ?thesis
      using WorkerFinish True r o st assms(3)
      by (cases ok) (auto simp: run_status_eq worker_finish_def terminal_def forward.complete
          forward.fail split: option.splits)
  qed
qed (use assms(3) in simp_all)

text \<open>
  Claim C7, as the code has it. \<open>start_backtest\<close> returns true exactly when the run is active
  with status pending; otherwise it returns false, changes nothing and starts no worker. As long
  as every \<open>create_backtest\<close> gets an identifier that is not in use, and \<open>start_backtest\<close> is not
  called again for a run between the start of its worker and the moment that worker marks the
  run running, every call on the engine and every step of a worker leaves the status of a run as
  it is or moves it one step along pending, running, completed or failed; a status that is
  completed, failed or cancelled never changes.
\<close>

theorem status_moves_forward_only:
  assumes "trace_allowed evs System_init" and "allowed ev (run_trace evs System_init)"
  shows "(fst (start_backtest e bid) \<longleftrightarrow> (\<exists>r. active_backtests e bid = Some r \<and> status r = PENDING))
    \<and> (\<not> fst (start_backtest e bid) \<longrightarrow> start_backtest e bid = (False, e))
    \<and> (\<not> fst (start_backtest (engine s) bid) \<longrightarrow> sys_step (CallStart bid) s = s)
    \<and> (\<forall>b st. run_status (engine (run_trace evs System_init)) b = Some st \<longrightarrow>
          (\<exists>st'. run_status (engine (sys_step ev (run_trace evs System_init))) b = Some st'
             \<and> (st' = st \<or> forward st st') \<and> (terminal st \<longrightarrow> st' = st)))"
proof -
  have 1: "fst (start_backtest e bid) \<longleftrightarrow> (\<exists>r. active_backtests e bid = Some r \<and> status r = PENDING)"
    by (auto simp: start_backtest_def split: option.splits)
  have 2: "\<not> fst (start_backtest e bid) \<longrightarrow> start_backtest e bid = (False, e)"
    by (auto simp: start_backtest_def split: option.splits)
  have 3: "\<not> fst (start_backtest (engine s) bid) \<longrightarrow> sys_step (CallStart bid) s = s"
    by (auto simp: start_backtest_def split: option.splits)
  have c: "workers_consistent (run_trace evs System_init)"
    using consistent_init assms(1) by (rule consistent_trace)
  have 4: "\<forall>b st. run_status (engine (run_trace evs System_init)) b = Some st \<longrightarrow>
          (\<exists>st'. run_status (engine (sys_step ev (run_trace evs System_init))) b = Some st'
             \<and> (st' = st \<or> forward st st') \<and> (terminal st \<longrightarrow> st' = st))"
    using step_status [OF c assms(2)] by blast
  from 1 2 3 4 show ?thesis by blast
qed

lemmas system_eval = run_trace_def System_init_def worker_begin_def worker_finish_def
  run_outcome_def create_backtest_def start_backtest_def BacktestEngine_init_def
  example_config_def no_data_def get_multiple_symbols_def mark_running_def run_status_eq Let_def
  new_backtest_id_example

theorem status_moves_forward_only_witness:
  "run_status (engine (run_trace
       [CallCreate example_config 1700000000, CallStart ''backtest_1700000000'',
        WorkerBegin ''backtest_1700000000'' 1700000001] System_init))
     ''backtest_1700000000'' = Some RUNNING
   \<and> run_status (engine (run_trace
       [CallCreate example_config 1700000000, CallStart ''backtest_1700000000'',
        WorkerBegin ''backtest_1700000000'' 1700000001,
        WorkerFinish ''backtest_1700000000'' no_data 1700000002] System_init))
     ''backtest_1700000000'' = Some FAILED
   \<and> run_status (engine (sys_step (CallStart ''backtest_1700000000'') (run_trace
       [CallCreate example_config 1700000000, CallStart ''backtest_1700000000'',
        WorkerBegin ''backtest_1700000000'' 1700000001,
        WorkerFinish ''backtest_1700000000'' no_data 1700000002] System_init)))
     ''backtest_1700000000'' = Some FAILED"
proof -
  let ?pre = "[CallCreate example_config 1700000000, CallStart ''backtest_1700000000'',
        WorkerBegin ''backtest_1700000000'' 1700000001]"
  let ?evs = "?pre @ [WorkerFinish ''backtest_1700000000'' no_data 1700000002]"
  let ?ev = "CallStart ''backtest_1700000000''"
  have a: "trace_allowed ?evs System_init"
    by (simp add: system_eval)
  have b: "allowed ?ev (run_trace ?evs System_init)"
    by (simp add: system_eval)
  have r: "run_status (engine (run_trace ?pre System_init)) ''backtest_1700000000'' = Some RUNNING"
    by (simp add: system_eval)
  have f: "run_status (engine (run_trace ?evs System_init)) ''backtest_1700000000'' = Some FAILED"
    by (simp add: system_eval)
  from status_moves_forward_only [OF a b] f
  obtain st' where
    "run_status (engine (sys_step ?ev (run_trace ?evs System_init))) ''backtest_1700000000'' = Some st'"
    and "terminal FAILED \<longrightarrow> st' = FAILED" by blast
  then have "run_status (engine (sys_step ?ev (run_trace ?evs System_init)))
      ''backtest_1700000000'' = Some FAILED"
    by (simp add: terminal_def)
  with r f show ?thesis by simp
qed


text \<open>
  The claim as stated fails without the two conditions. A run is created, started, and fails
  for want of data. A second \<open>create_backtest\<close> in the same second gets the same identifier and
  puts a pending run in its place. And when \<open>start_backtest\<close> was called twice before the first
  worker marked the run running, the second worker finds the failed run still among the active
  ones and marks it running.
\<close>

theorem status_leaves_terminal_state:
  "run_status (engine (run_trace
       [CallCreate example_config 1700000000, CallStart ''backtest_1700000000'',
        WorkerBegin ''backtest_1700000000'' 1700000001,
        WorkerFinish ''backtest_1700000000'' no_data 1700000002] System_init))
     ''backtest_1700000000'' = Some FAILED
   \<and> run_status (engine (run_trace
       [CallCreate example_config 1700000000, CallStart ''backtest_1700000000'',
        WorkerBegin ''backtest_1700000000'' 1700000001,
        WorkerFinish ''backtest_1700000000'' no_data 1700000002,
        CallCreate example_config 1700000000] System_init))
     ''backtest_1700000000'' = Some PENDING
   \<and> run_status (engine (run_trace
       [CallCreate example_config 1700000000, CallStart ''backtest_1700000000'',
        CallStart ''backtest_1700000000'',
        WorkerBegin ''backtest_1700000000'' 1700000001,
        WorkerFinish ''backtest_1700000000'' no_data 1700000002] System_init))
     ''backtest_1700000000'' = Some FAILED
   \<and> run_status (engine (run_trace
       [CallCreate example_config 1700000000, CallStart ''backtest_1700000000'',
        CallStart ''backtest_1700000000'',
        WorkerBegin ''backtest_1700000000'' 1700000001,
        WorkerFinish ''backtest_1700000000'' no_data 1700000002,
        WorkerBegin ''backtest_1700000000'' 1700000003] System_init))
     ''backtest_1700000000'' = Some RUNNING"
  by (simp add: system_eval)


end
